theory Spec2Isabelle
  imports Complex_Main "HOL-Library.Multiset"
begin

section \<open>Python values shared by the modules\<close>

text \<open>
  Exceptions raised by the modelled code are values of \<open>error\<close>; a function that can
  raise returns \<open>error + 'a\<close> with \<open>Inl\<close> for the exception. Python floats are modelled
  as \<open>real\<close> (no NaN, no infinities, no rounding), Python ints as \<open>int\<close>.
\<close>

datatype error =
  RuntimeError | IndexError | KeyError string | AttributeError | ValueError | TypeError

text \<open>\<open>xs[:n]\<close> for an int \<open>n\<close>: a negative bound counts from the end.\<close>

definition py_slice_to :: "int \<Rightarrow> 'a list \<Rightarrow> 'a list" where
  "py_slice_to n xs =
     (if 0 \<le> n then take (nat n) xs else take (nat (int (length xs) + n)) xs)"

text \<open>
  \<open>xs.sort(key=k, reverse=True)\<close>: CPython reverses the list, runs its stable ascending
  sort and reverses the result, so that equal keys keep their original order.
\<close>

definition sort_reverse :: "('a \<Rightarrow> 'k::linorder) \<Rightarrow> 'a list \<Rightarrow> 'a list" where
  "sort_reverse k xs = rev (sort_key k (rev xs))"

text \<open>
  Python strings are modelled as lists of characters with code points below 256, a
  \<open>char\<close> standing for the code point of its number. On these, \<open>str.lower\<close> moves
  \<open>A-Z\<close> and the capital letters of Latin-1 by 32, and \<open>str.strip\<close> removes the
  characters for which \<open>str.isspace\<close> holds from both ends.
\<close>

definition py_lower_char :: "char \<Rightarrow> char" where
  "py_lower_char c =
     (let n = (of_char c :: nat)
      in if (65 \<le> n \<and> n \<le> 90) \<or> (192 \<le> n \<and> n \<le> 222 \<and> n \<noteq> 215)
         then char_of (n + 32) else c)"

definition py_lower :: "string \<Rightarrow> string" where
  "py_lower s = map py_lower_char s"

definition py_isspace :: "char \<Rightarrow> bool" where
  "py_isspace c =
     (let n = (of_char c :: nat)
      in (9 \<le> n \<and> n \<le> 13) \<or> (28 \<le> n \<and> n \<le> 32) \<or> n = 133 \<or> n = 160)"

definition py_strip :: "string \<Rightarrow> string" where
  "py_strip s = rev (dropWhile py_isspace (rev (dropWhile py_isspace s)))"

text \<open>\<open>repr\<close> of a string and of a list of strings, as an f-string formats them.\<close>

definition hex_digit :: "nat \<Rightarrow> char" where
  "hex_digit d = (if d < 10 then char_of (48 + d) else char_of (87 + d))"

definition py_repr_char :: "char \<Rightarrow> char \<Rightarrow> string" where
  "py_repr_char q c =
     (let n = (of_char c :: nat)
      in if c = q \<or> n = 92 then [CHR 0x5C, c]
         else if n = 9 then [CHR 0x5C, CHR ''t'']
         else if n = 10 then [CHR 0x5C, CHR ''n'']
         else if n = 13 then [CHR 0x5C, CHR ''r'']
         else if n < 32 \<or> (127 \<le> n \<and> n \<le> 160) \<or> n = 173
           then [CHR 0x5C, CHR ''x'', hex_digit (n div 16), hex_digit (n mod 16)]
         else [c])"

definition py_repr_str :: "string \<Rightarrow> string" where
  "py_repr_str s =
     (let q = (if CHR 0x27 \<in> set s \<and> CHR 0x22 \<notin> set s then CHR 0x22 else CHR 0x27)
      in [q] @ concat (map (py_repr_char q) s) @ [q])"

fun py_join :: "string \<Rightarrow> string list \<Rightarrow> string" where
  "py_join sep [] = []"
| "py_join sep [x] = x"
| "py_join sep (x # y # ys) = x @ sep @ py_join sep (y # ys)"

definition py_repr_list :: "string list \<Rightarrow> string" where
  "py_repr_list xs = ''['' @ py_join '', '' (map py_repr_str xs) @ '']''"

section \<open>Constants (src/config/constants.py)\<close>

definition SUPPORTED_CROPS :: "string list" where
  "SUPPORTED_CROPS =
     [''Maize'', ''Potatoes'', ''Rice, paddy'', ''Sorghum'', ''Soybeans'',
      ''Wheat'', ''Cassava'', ''Sweet potatoes'', ''Plantains and others'', ''Yams'']"

definition COLUMN_MAPPING :: "(string \<times> string) list" where
  "COLUMN_MAPPING =
     [(''Area'', ''country''),
      (''Item'', ''crop''),
      (''Year'', ''year''),
      (''hg/ha_yield'', ''yield''),
      (''average_rain_fall_mm_per_year'', ''rainfall_mm''),
      (''pesticides_tonnes'', ''pesticides_tonnes''),
      (''avg_temp'', ''avg_temp'')]"

text \<open>The key of the last but one entry is spelled in the source with U+00C3 U+00B4.\<close>

definition COUNTRY_MAPPING :: "(string \<times> string) list" where
  "COUNTRY_MAPPING =
     [(''United States of America'', ''United States''),
      (''USA'', ''United States''),
      (''UK'', ''United Kingdom''),
      (''United Kingdom of Great Britain and Northern Ireland'', ''United Kingdom''),
      (''Russian Federation'', ''Russia''),
      (''Republic of Korea'', ''South Korea''),
      (''Korea, Republic of'', ''South Korea''),
      (''Viet Nam'', ''Vietnam''),
      (''Iran (Islamic Republic of)'', ''Iran''),
      (''Syrian Arab Republic'', ''Syria''),
      (''Venezuela (Bolivarian Republic of)'', ''Venezuela''),
      (''Bolivia (Plurinational State of)'', ''Bolivia''),
      (''United Republic of Tanzania'', ''Tanzania''),
      (''C'' @ [CHR 0xC3, CHR 0xB4] @ ''te d'' @ [CHR 0x27] @ ''Ivoire'', ''Ivory Coast''),
      (''Czechia'', ''Czech Republic'')]"

section \<open>Inference (src/models/inference.py, api/model_loader.py)\<close>

text \<open>One row of the frame handed to the fitted pipeline.\<close>

record input_row =
  row_crop :: string
  row_country :: string
  row_rainfall_mm :: real
  row_pesticides_tonnes :: real
  row_avg_temp :: real

text \<open>
  The fitted pipeline is opaque: \<open>model.predict\<close> maps the rows of a frame to an array
  of numbers. Nothing is assumed about the length of the array it returns; reading
  \<open>predictions[i]\<close> beyond its end raises IndexError.
\<close>

type_synonym model = "input_row list \<Rightarrow> real list"

record recommendation =
  rank :: int
  crop :: string
  predicted_yield :: real
  yield_unit :: string

definition input_rows :: "string \<Rightarrow> real \<Rightarrow> real \<Rightarrow> real \<Rightarrow> string list \<Rightarrow> input_row list" where
  "input_rows country rainfall_mm pesticides_tonnes avg_temp crops =
     map (\<lambda>c. \<lparr>row_crop = c, row_country = country, row_rainfall_mm = rainfall_mm,
               row_pesticides_tonnes = pesticides_tonnes, row_avg_temp = avg_temp\<rparr>) crops"

text \<open>
  The loop \<open>for i, crop in enumerate(crops): results.append({...})\<close>; \<open>f\<close> is what the
  caller applies to \<open>float(predictions[i])\<close>.
\<close>

fun make_results :: "(real \<Rightarrow> real) \<Rightarrow> nat \<Rightarrow> string list \<Rightarrow> real list \<Rightarrow> error + recommendation list" where
  "make_results f i [] predictions = Inr []"
| "make_results f i (c # cs) predictions =
     (if i < length predictions then
        (case make_results f (Suc i) cs predictions of
           Inl e \<Rightarrow> Inl e
         | Inr rs \<Rightarrow> Inr (\<lparr>rank = 0, crop = c, predicted_yield = f (predictions ! i),
                           yield_unit = ''hg/ha''\<rparr> # rs))
      else Inl IndexError)"

text \<open>The loop \<open>for i, result in enumerate(results): result["rank"] = i + 1\<close>.\<close>

fun assign_ranks :: "nat \<Rightarrow> recommendation list \<Rightarrow> recommendation list" where
  "assign_ranks i [] = []"
| "assign_ranks i (r # rs) = r\<lparr>rank := int i + 1\<rparr> # assign_ranks (Suc i) rs"

definition top_n_of :: "int option \<Rightarrow> recommendation list \<Rightarrow> recommendation list" where
  "top_n_of top_n results = (case top_n of None \<Rightarrow> results | Some n \<Rightarrow> py_slice_to n results)"

definition predict_yield :: "model \<Rightarrow> string \<Rightarrow> string \<Rightarrow> real \<Rightarrow> real \<Rightarrow> real \<Rightarrow> error + real" where
  "predict_yield model crop_name country rainfall_mm pesticides_tonnes avg_temp =
     (case model [\<lparr>row_crop = crop_name, row_country = country, row_rainfall_mm = rainfall_mm,
                   row_pesticides_tonnes = pesticides_tonnes, row_avg_temp = avg_temp\<rparr>] of
        [] \<Rightarrow> Inl IndexError
      | prediction # _ \<Rightarrow> Inr prediction)"

text \<open>\<open>crops or SUPPORTED_CROPS\<close>: \<open>None\<close> and the empty list are both falsy.\<close>

definition crops_or_default :: "string list option \<Rightarrow> string list" where
  "crops_or_default crops =
     (case crops of None \<Rightarrow> SUPPORTED_CROPS | Some [] \<Rightarrow> SUPPORTED_CROPS | Some cs \<Rightarrow> cs)"

definition recommend_crops ::
  "model \<Rightarrow> string \<Rightarrow> real \<Rightarrow> real \<Rightarrow> real \<Rightarrow> string list option \<Rightarrow> int option
     \<Rightarrow> error + recommendation list" where
  "recommend_crops model country rainfall_mm pesticides_tonnes avg_temp crops top_n =
     (let crops' = crops_or_default crops;
          predictions = model (input_rows country rainfall_mm pesticides_tonnes avg_temp crops')
      in case make_results (\<lambda>p. p) 0 crops' predictions of
           Inl e \<Rightarrow> Inl e
         | Inr results \<Rightarrow>
             Inr (top_n_of top_n (assign_ranks 0 (sort_reverse predicted_yield results))))"

text \<open>
  \<open>validate_crop\<close>: the loop over the supported crops returns at the first one whose
  lower-cased name equals the lower-cased input.
\<close>

definition validate_crop :: "string \<Rightarrow> string list option \<Rightarrow> bool \<times> string" where
  "validate_crop crop_name supported =
     (let supported_crops = crops_or_default supported
      in if crop_name \<in> set supported_crops then (True, [])
         else case find (\<lambda>s. py_lower s = py_lower crop_name) supported_crops of
                Some s \<Rightarrow> (True, ''Did you mean '' @ [CHR 0x27] @ s @ [CHR 0x27] @ ''?'')
              | None \<Rightarrow>
                  (False, ''Crop '' @ [CHR 0x27] @ crop_name @ [CHR 0x27]
                            @ '' is not supported. Supported crops: ''
                            @ py_repr_list supported_crops))"

text \<open>
  The loader of api/model_loader.py. Of the metadata dictionary only the key
  \<open>supported_crops\<close> matters here: \<open>None\<close> stands for a dictionary without that key
  (the empty dictionary included).
\<close>

record metadata =
  md_supported_crops :: "string list option"

record model_loader =
  loader_model :: model
  loader_metadata :: "metadata option"
  is_loaded :: bool

definition default_crops :: "string list" where
  "default_crops =
     [''Maize'', ''Potatoes'', ''Rice, paddy'', ''Sorghum'', ''Soybeans'',
      ''Wheat'', ''Cassava'', ''Sweet potatoes'', ''Plantains and others'', ''Yams'']"

definition supported_crops :: "model_loader \<Rightarrow> string list" where
  "supported_crops self =
     (case loader_metadata self of
        None \<Rightarrow> default_crops
      | Some md \<Rightarrow> (case md_supported_crops md of None \<Rightarrow> default_crops | Some cs \<Rightarrow> cs))"

definition predict :: "model_loader \<Rightarrow> string \<Rightarrow> string \<Rightarrow> real \<Rightarrow> real \<Rightarrow> real \<Rightarrow> error + real" where
  "predict self crop_name country rainfall_mm pesticides_tonnes avg_temp =
     (if \<not> is_loaded self then Inl RuntimeError
      else case loader_model self
                  [\<lparr>row_crop = crop_name, row_country = country, row_rainfall_mm = rainfall_mm,
                    row_pesticides_tonnes = pesticides_tonnes, row_avg_temp = avg_temp\<rparr>] of
             [] \<Rightarrow> Inl IndexError
           | prediction # _ \<Rightarrow> Inr (max 0 prediction))"

definition recommend ::
  "model_loader \<Rightarrow> string \<Rightarrow> real \<Rightarrow> real \<Rightarrow> real \<Rightarrow> int option \<Rightarrow> error + recommendation list" where
  "recommend self country rainfall_mm pesticides_tonnes avg_temp top_n =
     (if \<not> is_loaded self then Inl RuntimeError
      else
        let crops = supported_crops self;
            predictions = loader_model self
                            (input_rows country rainfall_mm pesticides_tonnes avg_temp crops)
        in case make_results (max 0) 0 crops predictions of
             Inl e \<Rightarrow> Inl e
           | Inr results \<Rightarrow>
               Inr (top_n_of top_n (assign_ranks 0 (sort_reverse predicted_yield results))))"

section \<open>Data frames\<close>

text \<open>
  A pandas frame is modelled by its column names, in order, and its rows; a row maps a
  column name to a cell. A cell is missing (\<open>NaN\<close>/\<open>None\<close>), a number or a string;
  integer columns hold numbers with integral values. Frames with repeated column
  names, infinite floats and other cell types are outside the model. Row labels (the
  index) are not modelled: no modelled function reads them.
\<close>

datatype cell = NA | Num real | Str string

type_synonym row = "string \<Rightarrow> cell"

record table =
  columns :: "string list"
  rows :: "row list"

text \<open>A frame from column names and rows of values, and the values of a frame.\<close>

definition row_of :: "(string \<times> cell) list \<Rightarrow> row" where
  "row_of kvs = (\<lambda>k. case map_of kvs k of Some v \<Rightarrow> v | None \<Rightarrow> NA)"

definition make_table :: "string list \<Rightarrow> cell list list \<Rightarrow> table" where
  "make_table cols vals = \<lparr>columns = cols, rows = map (\<lambda>vs. row_of (zip cols vs)) vals\<rparr>"

definition table_cells :: "table \<Rightarrow> cell list list" where
  "table_cells df = map (\<lambda>r. map r (columns df)) (rows df)"

text \<open>\<open>df.rename(columns=...)\<close> and \<open>df.columns = ...\<close>: the cells move with their column.\<close>

definition rename_columns :: "(string \<Rightarrow> string) \<Rightarrow> table \<Rightarrow> table" where
  "rename_columns f df =
     \<lparr>columns = map f (columns df),
      rows = map (\<lambda>r k. case find (\<lambda>c. f c = k) (columns df) of
                            Some c \<Rightarrow> r c
                          | None \<Rightarrow> NA) (rows df)\<rparr>"

definition rename_by :: "(string \<times> string) list \<Rightarrow> string \<Rightarrow> string" where
  "rename_by mapping c = (case map_of mapping c of Some c' \<Rightarrow> c' | None \<Rightarrow> c)"

text \<open>\<open>df[[c1, ..., cn]]\<close>: KeyError when a column is missing.\<close>

definition select_columns :: "string list \<Rightarrow> table \<Rightarrow> error + table" where
  "select_columns cs df =
     (case find (\<lambda>c. c \<notin> set (columns df)) cs of
        Some c \<Rightarrow> Inl (KeyError c)
      | None \<Rightarrow>
          Inr \<lparr>columns = cs,
               rows = map (\<lambda>r k. if k \<in> set cs then r k else NA) (rows df)\<rparr>)"

text \<open>\<open>df[c] = f(df[c])\<close> for a cell-wise \<open>f\<close>, and \<open>df[c] = ...\<close> computed from each row.\<close>

definition map_column :: "string \<Rightarrow> (cell \<Rightarrow> cell) \<Rightarrow> table \<Rightarrow> table" where
  "map_column c f df = df\<lparr>rows := map (\<lambda>r. r(c := f (r c))) (rows df)\<rparr>"

definition assign_column :: "string \<Rightarrow> (row \<Rightarrow> cell) \<Rightarrow> table \<Rightarrow> table" where
  "assign_column c f df =
     \<lparr>columns = (if c \<in> set (columns df) then columns df else columns df @ [c]),
      rows = map (\<lambda>r. r(c := f r)) (rows df)\<rparr>"

text \<open>
  \<open>series.str.strip()\<close>. The accessor raises AttributeError unless the column holds
  strings: a column with a string cell is accepted, a column of numbers is refused. A
  column with no value at all is accepted here, as pandas does for an object column
  (for a float column of only NaN pandas raises). Cells that are not strings become
  missing.
\<close>

fun is_str :: "cell \<Rightarrow> bool" where
  "is_str (Str s) = True"
| "is_str _ = False"

definition str_accessor_ok :: "cell list \<Rightarrow> bool" where
  "str_accessor_ok cells \<longleftrightarrow> (\<exists>c \<in> set cells. is_str c) \<or> (\<forall>c \<in> set cells. c = NA)"

fun strip_cell :: "cell \<Rightarrow> cell" where
  "strip_cell (Str s) = Str (py_strip s)"
| "strip_cell _ = NA"

definition str_strip_column :: "string \<Rightarrow> table \<Rightarrow> error + table" where
  "str_strip_column c df =
     (if str_accessor_ok (map (\<lambda>r. r c) (rows df)) then Inr (map_column c strip_cell df)
      else Inl AttributeError)"

text \<open>\<open>series.replace(mapping)\<close> for a dictionary with string keys.\<close>

fun replace_cell :: "(string \<times> string) list \<Rightarrow> cell \<Rightarrow> cell" where
  "replace_cell mapping (Str s) = Str (rename_by mapping s)"
| "replace_cell mapping c = c"

text \<open>
  \<open>series.astype(int)\<close>: a missing cell raises ValueError, a float is truncated towards
  zero, a string is converted by \<open>int\<close>. Which strings \<open>int\<close> and \<open>pd.to_numeric\<close>
  accept is not modelled: the two conversions of strings are parameters
  (\<open>int_of_str\<close>, \<open>num_of_str\<close>) of the functions that use them.
\<close>

definition trunc :: "real \<Rightarrow> int" where
  "trunc x = (if 0 \<le> x then \<lfloor>x\<rfloor> else \<lceil>x\<rceil>)"

fun int_cell :: "(string \<Rightarrow> int option) \<Rightarrow> cell \<Rightarrow> cell option" where
  "int_cell int_of_str NA = None"
| "int_cell int_of_str (Num x) = Some (Num (of_int (trunc x)))"
| "int_cell int_of_str (Str s) =
     (case int_of_str s of None \<Rightarrow> None | Some i \<Rightarrow> Some (Num (of_int i)))"

definition astype_int :: "(string \<Rightarrow> int option) \<Rightarrow> string \<Rightarrow> table \<Rightarrow> error + table" where
  "astype_int int_of_str c df =
     (if c \<notin> set (columns df) then Inl (KeyError c)
      else if \<forall>r \<in> set (rows df). int_cell int_of_str (r c) \<noteq> None
        then Inr (map_column c (\<lambda>v. case int_cell int_of_str v of Some w \<Rightarrow> w | None \<Rightarrow> v) df)
      else Inl ValueError)"

text \<open>\<open>pd.to_numeric(series, errors="coerce")\<close>.\<close>

fun to_numeric_cell :: "(string \<Rightarrow> real option) \<Rightarrow> cell \<Rightarrow> cell" where
  "to_numeric_cell num_of_str NA = NA"
| "to_numeric_cell num_of_str (Num x) = Num x"
| "to_numeric_cell num_of_str (Str s) =
     (case num_of_str s of None \<Rightarrow> NA | Some x \<Rightarrow> Num x)"

text \<open>\<open>df.dropna(subset=[c])\<close>.\<close>

definition dropna :: "string \<Rightarrow> table \<Rightarrow> table" where
  "dropna c df = df\<lparr>rows := filter (\<lambda>r. r c \<noteq> NA) (rows df)\<rparr>"

text \<open>
  \<open>df.drop_duplicates(subset=cols, keep="first")\<close>: a row is dropped when an earlier
  row has the same values in \<open>cols\<close> (missing values compare equal).
\<close>

fun drop_dups :: "('a \<Rightarrow> 'k) \<Rightarrow> 'k list \<Rightarrow> 'a list \<Rightarrow> 'a list" where
  "drop_dups k seen [] = []"
| "drop_dups k seen (x # xs) =
     (if k x \<in> set seen then drop_dups k seen xs else x # drop_dups k (k x # seen) xs)"

definition row_key :: "string list \<Rightarrow> row \<Rightarrow> cell list" where
  "row_key cols r = map r cols"

definition drop_duplicates :: "string list \<Rightarrow> table \<Rightarrow> error + table" where
  "drop_duplicates cols df =
     (case find (\<lambda>c. c \<notin> set (columns df)) cols of
        Some c \<Rightarrow> Inl (KeyError c)
      | None \<Rightarrow> Inr (df\<lparr>rows := drop_dups (row_key cols) [] (rows df)\<rparr>))"


section \<open>Cleaning (src/data/cleaner.py)\<close>

definition standardize_column_names :: "table \<Rightarrow> (string \<times> string) list option \<Rightarrow> table" where
  "standardize_column_names df mapping =
     (let mapping' = (case mapping of None \<Rightarrow> COLUMN_MAPPING | Some [] \<Rightarrow> COLUMN_MAPPING
                      | Some m \<Rightarrow> m)
      in rename_columns (rename_by mapping') (rename_columns py_strip df))"

definition standardize_country_names :: "table \<Rightarrow> string \<Rightarrow> error + table" where
  "standardize_country_names df country_col =
     (if country_col \<in> set (columns df) then
        (case str_strip_column country_col df of
           Inl e \<Rightarrow> Inl e
         | Inr df' \<Rightarrow> Inr (map_column country_col (replace_cell COUNTRY_MAPPING) df'))
      else Inr df)"

definition clean_text_column :: "string \<Rightarrow> table \<Rightarrow> error + table" where
  "clean_text_column c df = str_strip_column c df"

text \<open>
  \<open>clean_yield_data\<close> up to and including the conversion of the numeric columns: these
  steps change cells and column names but neither the number nor the order of the rows.
\<close>

definition coerce_yield_data ::
  "(string \<Rightarrow> int option) \<Rightarrow> (string \<Rightarrow> real option) \<Rightarrow> table \<Rightarrow> error + table" where
  "coerce_yield_data int_of_str num_of_str df =
     (let df1 = standardize_column_names df None
      in case standardize_country_names df1 ''country'' of
           Inl e \<Rightarrow> Inl e
         | Inr df2 \<Rightarrow>
        (case (if ''crop'' \<in> set (columns df2) then clean_text_column ''crop'' df2
               else Inr df2) of
           Inl e \<Rightarrow> Inl e
         | Inr df3 \<Rightarrow>
        (case (if ''year'' \<in> set (columns df3) then astype_int int_of_str ''year'' df3
               else Inr df3) of
           Inl e \<Rightarrow> Inl e
         | Inr df4 \<Rightarrow>
             Inr (fold (\<lambda>col d. if col \<in> set (columns d)
                                 then map_column col (to_numeric_cell num_of_str) d else d)
                    [''yield'', ''rainfall_mm'', ''pesticides_tonnes'', ''avg_temp''] df4))))"

definition clean_yield_data ::
  "(string \<Rightarrow> int option) \<Rightarrow> (string \<Rightarrow> real option) \<Rightarrow> table \<Rightarrow> error + table" where
  "clean_yield_data int_of_str num_of_str df =
     (case coerce_yield_data int_of_str num_of_str df of
        Inl e \<Rightarrow> Inl e
      | Inr df5 \<Rightarrow>
          let df6 = (if ''yield'' \<in> set (columns df5) then dropna ''yield'' df5 else df5);
              key_cols = filter (\<lambda>c. c \<in> set (columns df6)) [''country'', ''crop'', ''year'']
          in if key_cols \<noteq> [] then drop_duplicates key_cols df6 else Inr df6)"

definition clean_context_data ::
  "(string \<Rightarrow> int option) \<Rightarrow> (string \<Rightarrow> real option) \<Rightarrow> table \<Rightarrow> string \<Rightarrow> error + table" where
  "clean_context_data int_of_str num_of_str df context_type =
     (case
        (if context_type = ''pesticides'' then
           (case select_columns [''country'', ''year'', ''pesticides_tonnes'']
                   (rename_columns
                      (rename_by [(''Area'', ''country''), (''Year'', ''year''),
                                  (''Value'', ''pesticides_tonnes'')]) df) of
              Inl e \<Rightarrow> Inl e
            | Inr d \<Rightarrow> Inr (map_column ''pesticides_tonnes'' (to_numeric_cell num_of_str) d))
         else if context_type = ''rainfall'' then
           (case select_columns [''country'', ''year'', ''rainfall_mm'']
                   (rename_columns
                      (rename_by [(''Area'', ''country''), (''Year'', ''year''),
                                  (''average_rain_fall_mm_per_year'', ''rainfall_mm'')])
                      (rename_columns py_strip df)) of
              Inl e \<Rightarrow> Inl e
            | Inr d \<Rightarrow> Inr (map_column ''rainfall_mm'' (to_numeric_cell num_of_str) d))
         else if context_type = ''temperature'' then
           (case select_columns [''country'', ''year'', ''avg_temp'']
                   (rename_columns
                      (rename_by [(''country'', ''country''), (''year'', ''year''),
                                  (''avg_temp'', ''avg_temp'')]) df) of
              Inl e \<Rightarrow> Inl e
            | Inr d \<Rightarrow> Inr (map_column ''avg_temp'' (to_numeric_cell num_of_str) d))
         else Inr df) of
        Inl e \<Rightarrow> Inl e
      | Inr df1 \<Rightarrow>
     (case standardize_country_names df1 ''country'' of
        Inl e \<Rightarrow> Inl e
      | Inr df2 \<Rightarrow>
     (case astype_int int_of_str ''year'' df2 of
        Inl e \<Rightarrow> Inl e
      | Inr df3 \<Rightarrow> drop_duplicates [''country'', ''year''] df3)))"

section \<open>Fusion (src/data/fusion.py)\<close>




section \<open>Feature engineering (src/features/engineering.py)\<close>

text \<open>
  \<open>pd.cut(series, bins=[-inf, b1, ..., bn, inf], labels=...)\<close> with the default
  \<open>right=True\<close>: the intervals are closed on the right, so a value gets the label of the
  first threshold it does not exceed. A missing value stays missing; a string raises
  TypeError.
\<close>

fun cut_label :: "real list \<Rightarrow> string list \<Rightarrow> real \<Rightarrow> string" where
  "cut_label (b # bs) (l # ls) x = (if x \<le> b then l else cut_label bs ls x)"
| "cut_label [] (l # ls) x = l"
| "cut_label bs [] x = []"

fun cut_cell :: "real list \<Rightarrow> string list \<Rightarrow> cell \<Rightarrow> cell" where
  "cut_cell bs ls (Num x) = Str (cut_label bs ls x)"
| "cut_cell bs ls c = NA"

text \<open>
  \<open>np.log1p\<close>: for \<open>x \<le> -1\<close> numpy answers \<open>-inf\<close> or NaN, which the model has as
  missing.
\<close>

fun log1p_cell :: "cell \<Rightarrow> cell" where
  "log1p_cell (Num x) = (if -1 < x then Num (ln (1 + x)) else NA)"
| "log1p_cell c = NA"

fun interaction_cell :: "cell \<Rightarrow> cell \<Rightarrow> cell" where
  "interaction_cell (Num a) (Num b) = Num (a * b / 1000)"
| "interaction_cell a b = NA"

definition numeric_column :: "string \<Rightarrow> table \<Rightarrow> bool" where
  "numeric_column c df \<longleftrightarrow> (\<forall>r \<in> set (rows df). \<not> is_str (r c))"

definition create_features :: "table \<Rightarrow> error + table" where
  "create_features df =
     (case (if ''avg_temp'' \<in> set (columns df) then
              (if numeric_column ''avg_temp'' df
               then Inr (assign_column ''temp_category''
                           (\<lambda>r. cut_cell [10, 20, 30] [''cold'', ''temperate'', ''warm'', ''hot'']
                                   (r ''avg_temp'')) df)
               else Inl TypeError)
            else Inr df) of
        Inl e \<Rightarrow> Inl e
      | Inr df1 \<Rightarrow>
     (case (if ''rainfall_mm'' \<in> set (columns df1) then
              (if numeric_column ''rainfall_mm'' df1
               then Inr (assign_column ''rainfall_category''
                           (\<lambda>r. cut_cell [500, 1000, 2000]
                                   [''arid'', ''semi_arid'', ''moderate'', ''wet'']
                                   (r ''rainfall_mm'')) df1)
               else Inl TypeError)
            else Inr df1) of
        Inl e \<Rightarrow> Inl e
      | Inr df2 \<Rightarrow>
     (case (if ''pesticides_tonnes'' \<in> set (columns df2) then
              (if numeric_column ''pesticides_tonnes'' df2
               then Inr (assign_column ''log_pesticides''
                           (\<lambda>r. log1p_cell (r ''pesticides_tonnes'')) df2)
               else Inl TypeError)
            else Inr df2) of
        Inl e \<Rightarrow> Inl e
      | Inr df3 \<Rightarrow>
          (if ''avg_temp'' \<in> set (columns df3) \<and> ''rainfall_mm'' \<in> set (columns df3) then
             (if numeric_column ''avg_temp'' df3 \<and> numeric_column ''rainfall_mm'' df3
              then Inr (assign_column ''temp_rain_interaction''
                          (\<lambda>r. interaction_cell (r ''avg_temp'') (r ''rainfall_mm'')) df3)
              else Inl TypeError)
           else Inr df3))))"

section \<open>Auxiliary notions for the statements\<close>

text \<open>The column names and the values of a frame, as one would print them.\<close>

definition table_contents :: "table \<Rightarrow> string list \<times> cell list list" where
  "table_contents df = (columns df, table_cells df)"

text \<open>The name a raw column has after \<open>standardize_column_names\<close>.\<close>

definition standard_name :: "string \<Rightarrow> string" where
  "standard_name c = rename_by COLUMN_MAPPING (py_strip c)"

text \<open>
  What \<open>standardize_country_names\<close> does to one name, and to one cell: strip, then look
  the result up in \<open>COUNTRY_MAPPING\<close>.
\<close>

definition normal_country :: "string \<Rightarrow> string" where
  "normal_country s = rename_by COUNTRY_MAPPING (py_strip s)"

definition normal_cell :: "cell \<Rightarrow> cell" where
  "normal_cell v = replace_cell COUNTRY_MAPPING (strip_cell v)"








text \<open>
  What the ranking claims say of a result list \<open>full\<close> for candidate crops \<open>cs\<close> with
  reported yields \<open>ys\<close>: one entry per candidate, yields descending, entries of equal
  yield in the candidates' order, and ranks 1, 2, ..., N.
\<close>

definition is_ranking :: "string list \<Rightarrow> real list \<Rightarrow> recommendation list \<Rightarrow> bool" where
  "is_ranking cs ys full \<longleftrightarrow>
     length full = length cs
     \<and> mset (map (\<lambda>r. (crop r, predicted_yield r)) full) = mset (zip cs ys)
     \<and> sorted_wrt (\<lambda>a b. predicted_yield b \<le> predicted_yield a) full
     \<and> (\<forall>y. map crop (filter (\<lambda>r. predicted_yield r = y) full)
              = map fst (filter (\<lambda>cp. snd cp = y) (zip cs ys)))
     \<and> map rank full = map int [1..<Suc (length cs)]"

section \<open>Sorting and ranking\<close>

lemma sort_reverse_length: "length (sort_reverse k xs) = length xs"
  by (simp add: sort_reverse_def)

lemma sort_reverse_mset: "mset (sort_reverse k xs) = mset xs"
  by (simp add: sort_reverse_def)

lemma sort_reverse_set: "set (sort_reverse k xs) = set xs"
  by (simp add: sort_reverse_def)

lemma sort_reverse_descending:
  "sorted_wrt (\<lambda>a b. k b \<le> k a) (sort_reverse k xs)"
proof -
  have "sorted (map k (sort_key k (rev xs)))"
    by (rule sorted_sort_key)
  then have "sorted_wrt (\<lambda>a b. k a \<le> k b) (sort_key k (rev xs))"
    by (simp add: sorted_map)
  then show ?thesis
    by (simp add: sort_reverse_def sorted_wrt_rev)
qed

lemma sort_reverse_stable:
  "filter (\<lambda>x. k x = v) (sort_reverse k xs) = filter (\<lambda>x. k x = v) xs"
proof -
  have "filter (\<lambda>x. k x = v) (sort_key k (rev xs)) = filter (\<lambda>x. k x = v) (rev xs)"
    by (rule sort_key_stable)
  then show ?thesis
    by (simp add: sort_reverse_def rev_filter [symmetric])
qed

lemma assign_ranks_length: "length (assign_ranks i rs) = length rs"
  by (induction rs arbitrary: i) simp_all

lemma assign_ranks_rank:
  "map rank (assign_ranks i rs) = map (\<lambda>j. int j + 1) [i..<i + length rs]"
proof (induction rs arbitrary: i)
  case Nil
  show ?case by simp
next
  case (Cons r rs)
  have "[i..<i + length (r # rs)] = i # [Suc i..<Suc i + length rs]"
    by (simp add: upt_rec)
  with Cons.IH [of "Suc i"] show ?case by simp
qed

lemma assign_ranks_crop: "map crop (assign_ranks i rs) = map crop rs"
  by (induction rs arbitrary: i) simp_all

lemma assign_ranks_yield: "map predicted_yield (assign_ranks i rs) = map predicted_yield rs"
  by (induction rs arbitrary: i) simp_all

lemma assign_ranks_unit: "map yield_unit (assign_ranks i rs) = map yield_unit rs"
  by (induction rs arbitrary: i) simp_all

lemma assign_ranks_map:
  "map (\<lambda>r. (crop r, predicted_yield r)) (assign_ranks i rs)
     = map (\<lambda>r. (crop r, predicted_yield r)) rs"
  by (induction rs arbitrary: i) simp_all

lemma make_results_ok:
  "i + length cs \<le> length ps \<Longrightarrow>
   \<exists>rs. make_results f i cs ps = Inr rs
      \<and> map (\<lambda>r. (crop r, predicted_yield r)) rs = zip cs (map f (take (length cs) (drop i ps)))"
proof (induction cs arbitrary: i)
  case Nil
  show ?case by simp
next
  case (Cons c cs)
  from Cons.prems have lt: "i < length ps" and le: "Suc i + length cs \<le> length ps"
    by simp_all
  from Cons.IH [OF le] obtain rs where
    rs: "make_results f (Suc i) cs ps = Inr rs"
        "map (\<lambda>r. (crop r, predicted_yield r)) rs
           = zip cs (map f (take (length cs) (drop (Suc i) ps)))"
    by blast
  from lt have "drop i ps = ps ! i # drop (Suc i) ps"
    by (simp add: Cons_nth_drop_Suc)
  with lt rs show ?case by simp
qed

lemma ranking_of_results:
  assumes rs: "map (\<lambda>r. (crop r, predicted_yield r)) rs = zip cs ys"
    and len: "length ys = length cs"
  shows "is_ranking cs ys (assign_ranks 0 (sort_reverse predicted_yield rs))"
proof -
  let ?cp = "\<lambda>r. (crop r, predicted_yield r)"
  let ?sorted = "sort_reverse predicted_yield rs"
  let ?full = "assign_ranks 0 ?sorted"
  from rs len have n: "length rs = length cs"
    by (metis length_map length_zip min.idem)
  have l: "length ?full = length cs"
    by (simp add: assign_ranks_length sort_reverse_length n)
  have "mset (map ?cp ?full) = mset (map ?cp ?sorted)"
    by (simp only: assign_ranks_map)
  also have "\<dots> = mset (map ?cp rs)"
    by (simp add: sort_reverse_mset)
  finally have m: "mset (map ?cp ?full) = mset (zip cs ys)"
    by (simp only: rs)
  have "sorted_wrt (\<lambda>a b. b \<le> a) (map predicted_yield ?sorted)"
    using sort_reverse_descending [of predicted_yield rs] by (simp add: sorted_wrt_map)
  then have "sorted_wrt (\<lambda>a b. b \<le> a) (map predicted_yield ?full)"
    by (simp only: assign_ranks_yield)
  then have d: "sorted_wrt (\<lambda>a b. predicted_yield b \<le> predicted_yield a) ?full"
    by (simp add: sorted_wrt_map)
  have st: "map crop (filter (\<lambda>r. predicted_yield r = y) ?full)
              = map fst (filter (\<lambda>cp. snd cp = y) (zip cs ys))" for y
  proof -
    have via: "map crop (filter (\<lambda>r. predicted_yield r = y) xs)
                 = map fst (filter (\<lambda>cp. snd cp = y) (map ?cp xs))" for xs
      by (induction xs) simp_all
    have "map crop (filter (\<lambda>r. predicted_yield r = y) ?full)
            = map fst (filter (\<lambda>cp. snd cp = y) (map ?cp ?sorted))"
      by (simp only: via assign_ranks_map)
    also have "\<dots> = map crop (filter (\<lambda>r. predicted_yield r = y) ?sorted)"
      by (simp only: via)
    also have "\<dots> = map crop (filter (\<lambda>r. predicted_yield r = y) rs)"
      by (simp only: sort_reverse_stable)
    also have "\<dots> = map fst (filter (\<lambda>cp. snd cp = y) (zip cs ys))"
      by (simp only: via rs)
    finally show ?thesis .
  qed
  have "map rank ?full = map (\<lambda>j. int j + 1) [0..<length cs]"
    by (simp add: assign_ranks_rank sort_reverse_length n)
  also have "\<dots> = map int (map Suc [0..<length cs])"
    by simp
  also have "map Suc [0..<length cs] = [1..<Suc (length cs)]"
    by (simp only: map_Suc_upt One_nat_def)
  finally have r: "map rank ?full = map int [1..<Suc (length cs)]" .
  from l m d st r show ?thesis
    unfolding is_ranking_def by blast
qed

lemma recommend_crops_ranking:
  assumes ne: "crops \<noteq> []"
    and len: "length crops \<le> length (model (input_rows country rainfall pesticides temp crops))"
  shows "\<exists>full.
           (\<forall>top_n. recommend_crops model country rainfall pesticides temp (Some crops) top_n
                      = Inr (top_n_of top_n full))
           \<and> is_ranking crops
                 (take (length crops) (model (input_rows country rainfall pesticides temp crops)))
                 full"
proof -
  let ?ps = "model (input_rows country rainfall pesticides temp crops)"
  from ne have cd: "crops_or_default (Some crops) = crops"
    by (cases crops) (simp_all add: crops_or_default_def)
  from len have "0 + length crops \<le> length ?ps" by simp
  from make_results_ok [OF this, of "\<lambda>p. p"] obtain rs where
    rs: "make_results (\<lambda>p. p) 0 crops ?ps = Inr rs"
        "map (\<lambda>r. (crop r, predicted_yield r)) rs = zip crops (take (length crops) ?ps)"
    by auto
  from len have "length (take (length crops) ?ps) = length crops" by simp
  from ranking_of_results [OF rs(2) this] rs(1) show ?thesis
    by (auto simp: recommend_crops_def cd Let_def)
qed



section \<open>Claims on the recommendation engine\<close>

lemma recommend_crops_example:
  "recommend_crops (\<lambda>frame. [100, 300, 200, 300]) ''India'' 1000 5000 20
       (Some [''A'', ''B'', ''C'', ''D'']) (Some 3)
     = Inr [\<lparr>rank = 1, crop = ''B'', predicted_yield = 300, yield_unit = ''hg/ha''\<rparr>,
            \<lparr>rank = 2, crop = ''D'', predicted_yield = 300, yield_unit = ''hg/ha''\<rparr>,
            \<lparr>rank = 3, crop = ''C'', predicted_yield = 200, yield_unit = ''hg/ha''\<rparr>]"
  by (simp add: recommend_crops_def crops_or_default_def input_rows_def sort_reverse_def
        top_n_of_def py_slice_to_def)



text \<open>
  C4 (as stated). With \<open>top_n = 0\<close> neither function raises: the slice
  \<open>results[:0]\<close> is the empty list, which is returned.
\<close>

theorem recommend_top_n_zero_returns:
  "recommend_crops (\<lambda>frame. [100, 300, 200]) ''India'' 1000 5000 20
       (Some [''A'', ''B'', ''C'']) (Some 0) = Inr []
   \<and> recommend \<lparr>loader_model = (\<lambda>frame. [100, 300, 200]),
                 loader_metadata = Some \<lparr>md_supported_crops = Some [''A'', ''B'', ''C'']\<rparr>,
                 is_loaded = True\<rparr> ''India'' 1000 5000 20 (Some 0) = Inr []"
  by (simp add: recommend_crops_def recommend_def supported_crops_def crops_or_default_def
        input_rows_def top_n_of_def py_slice_to_def)

text \<open>
  C4 (amended). Neither function checks \<open>top_n\<close>. Whenever the call without \<open>top_n\<close>
  returns a list \<open>full\<close>, the call with \<open>top_n = n < 1\<close> returns too: the slice
  \<open>full[:n]\<close>, which is empty for \<open>n = 0\<close> and is \<open>full\<close> without its last \<open>-n\<close>
  entries for negative \<open>n\<close>. No exception is raised for any \<open>top_n\<close>.
\<close>

theorem recommend_top_n_below_one_slices:
  assumes "n < 1"
  shows "(recommend_crops model country rainfall pesticides temp crops None = Inr full \<longrightarrow>
            recommend_crops model country rainfall pesticides temp crops (Some n)
              = Inr (if n = 0 then [] else take (length full - nat (- n)) full))
       \<and> (recommend self country rainfall pesticides temp None = Inr full \<longrightarrow>
            recommend self country rainfall pesticides temp (Some n)
              = Inr (if n = 0 then [] else take (length full - nat (- n)) full))"
proof -
  from assms have "nat (int (length full) + n) = length full - nat (- n)"
    by linarith
  with assms have "py_slice_to n full
      = (if n = 0 then [] else take (length full - nat (- n)) full)"
    by (simp add: py_slice_to_def)
  then show ?thesis
    by (auto simp: recommend_crops_def recommend_def Let_def top_n_of_def
          split: sum.splits if_splits)
qed

theorem recommend_top_n_below_one_slices_witness:
  "(-1 :: int) < 1
   \<and> recommend_crops (\<lambda>frame. [100, 300, 200]) ''India'' 1000 5000 20
       (Some [''A'', ''B'', ''C'']) (Some (-1))
     = Inr [\<lparr>rank = 1, crop = ''B'', predicted_yield = 300, yield_unit = ''hg/ha''\<rparr>,
            \<lparr>rank = 2, crop = ''C'', predicted_yield = 200, yield_unit = ''hg/ha''\<rparr>]"
proof -
  let ?full = "[\<lparr>rank = 1, crop = ''B'', predicted_yield = 300, yield_unit = ''hg/ha''\<rparr>,
                \<lparr>rank = 2, crop = ''C'', predicted_yield = 200, yield_unit = ''hg/ha''\<rparr>,
                \<lparr>rank = 3, crop = ''A'', predicted_yield = 100, yield_unit = ''hg/ha''\<rparr>]"
  have h: "(-1 :: int) < 1" by simp
  have full: "recommend_crops (\<lambda>frame. [100, 300, 200]) ''India'' 1000 5000 20
                (Some [''A'', ''B'', ''C'']) None = Inr ?full"
    by (simp add: recommend_crops_def crops_or_default_def input_rows_def sort_reverse_def
          top_n_of_def)
  from recommend_top_n_below_one_slices [OF h, of "\<lambda>frame. [100, 300, 200]" "''India''" 1000 5000 20
         "Some [''A'', ''B'', ''C'']" ?full] full
  show ?thesis by simp
qed

text \<open>
  C10. An explicitly empty candidate list is replaced by \<open>SUPPORTED_CROPS\<close>: the call
  behaves exactly as the call with the ten default crops, and when the model scores
  each of them the result has ten entries, one per default crop.
\<close>

theorem recommend_crops_empty_list_is_default:
  "recommend_crops model country rainfall pesticides temp (Some []) top_n
     = recommend_crops model country rainfall pesticides temp (Some SUPPORTED_CROPS) top_n
   \<and> recommend_crops model country rainfall pesticides temp (Some []) top_n
     = recommend_crops model country rainfall pesticides temp None top_n
   \<and> length SUPPORTED_CROPS = 10
   \<and> (10 \<le> length (model (input_rows country rainfall pesticides temp SUPPORTED_CROPS)) \<longrightarrow>
        (\<exists>full. recommend_crops model country rainfall pesticides temp (Some []) None = Inr full
           \<and> length full = 10
           \<and> mset (map crop full) = mset SUPPORTED_CROPS))"
proof -
  let ?ps = "model (input_rows country rainfall pesticides temp SUPPORTED_CROPS)"
  have cd: "crops_or_default (Some []) = SUPPORTED_CROPS"
           "crops_or_default None = SUPPORTED_CROPS"
           "crops_or_default (Some SUPPORTED_CROPS) = SUPPORTED_CROPS"
    by (simp_all add: crops_or_default_def SUPPORTED_CROPS_def)
  have n: "length SUPPORTED_CROPS = 10"
    by (simp add: SUPPORTED_CROPS_def)
  have eq: "recommend_crops model country rainfall pesticides temp (Some []) tn
          = recommend_crops model country rainfall pesticides temp (Some SUPPORTED_CROPS) tn"
           "recommend_crops model country rainfall pesticides temp (Some []) tn
          = recommend_crops model country rainfall pesticides temp None tn" for tn
    by (simp_all add: recommend_crops_def cd)
  have "\<exists>full. recommend_crops model country rainfall pesticides temp (Some []) None = Inr full
           \<and> length full = 10 \<and> mset (map crop full) = mset SUPPORTED_CROPS"
    if len: "10 \<le> length ?ps"
  proof -
    have ne: "SUPPORTED_CROPS \<noteq> []"
      by (simp add: SUPPORTED_CROPS_def)
    from len n have le: "length SUPPORTED_CROPS \<le> length ?ps" by simp
    have "\<exists>full.
           (\<forall>top_n. recommend_crops model country rainfall pesticides temp
                        (Some SUPPORTED_CROPS) top_n = Inr (top_n_of top_n full))
           \<and> is_ranking SUPPORTED_CROPS (take (length SUPPORTED_CROPS) ?ps) full"
      using ne le by (rule recommend_crops_ranking)
    then obtain full where
      full: "recommend_crops model country rainfall pesticides temp (Some SUPPORTED_CROPS) None
               = Inr full"
            "is_ranking SUPPORTED_CROPS (take (length SUPPORTED_CROPS) ?ps) full"
      by (auto simp: top_n_of_def)
    let ?ys = "take (length SUPPORTED_CROPS) ?ps"
    from le have lys: "length ?ys = length SUPPORTED_CROPS" by simp
    from full(2) have "mset (map (\<lambda>r. (crop r, predicted_yield r)) full)
        = mset (zip SUPPORTED_CROPS ?ys)"
      by (simp add: is_ranking_def)
    then have "mset (map fst (map (\<lambda>r. (crop r, predicted_yield r)) full))
        = mset (map fst (zip SUPPORTED_CROPS ?ys))"
      by (simp only: mset_map)
    then have "mset (map crop full) = mset (map fst (zip SUPPORTED_CROPS ?ys))"
      by (simp add: comp_def)
    with lys have "mset (map crop full) = mset SUPPORTED_CROPS"
      by simp
    moreover from full(2) n have "length full = 10"
      by (simp add: is_ranking_def)
    ultimately show ?thesis
      using full(1) eq(1) by auto
  qed
  with eq n show ?thesis by blast
qed

theorem recommend_crops_empty_list_is_default_witness:
  "10 \<le> length ((\<lambda>frame. map (\<lambda>r. 1 :: real) frame)
                     (input_rows ''India'' 1000 5000 20 SUPPORTED_CROPS))
   \<and> (\<exists>full. recommend_crops (\<lambda>frame. map (\<lambda>r. 1) frame) ''India'' 1000 5000 20 (Some []) None
                 = Inr full
         \<and> length full = 10 \<and> mset (map crop full) = mset SUPPORTED_CROPS)"
proof -
  have h: "10 \<le> length ((\<lambda>frame. map (\<lambda>r. 1 :: real) frame)
                          (input_rows ''India'' 1000 5000 20 SUPPORTED_CROPS))"
    by (simp add: input_rows_def SUPPORTED_CROPS_def)
  note t = recommend_crops_empty_list_is_default
             [of "\<lambda>frame. map (\<lambda>r. 1) frame" "''India''" 1000 5000 20 None]
  from h t [THEN conjunct2, THEN conjunct2, THEN conjunct2, THEN mp, OF h]
  show ?thesis by (rule conjI)
qed

section \<open>Clamping of predictions\<close>

lemma predict_nonnegative:
  "predict self crop_name country rainfall pesticides temp = Inr y \<Longrightarrow> 0 \<le> y"
  by (auto simp: predict_def split: if_splits list.splits)

lemma make_results_clamped:
  "make_results (max 0) i cs ps = Inr rs \<Longrightarrow> \<forall>r \<in> set rs. 0 \<le> predicted_yield r"
  by (induction cs arbitrary: i rs) (auto split: if_splits sum.splits)

lemma assign_ranks_yields:
  "predicted_yield ` set (assign_ranks i rs) = predicted_yield ` set rs"
  using assign_ranks_yield [of i rs] by (metis set_map)

lemma recommend_nonnegative:
  assumes "recommend self country rainfall pesticides temp top_n = Inr rs" and "r \<in> set rs"
  shows "0 \<le> predicted_yield r"
proof -
  from assms(1) obtain results where
    res: "make_results (max 0) 0 (supported_crops self)
            (loader_model self
               (input_rows country rainfall pesticides temp (supported_crops self))) = Inr results"
    and rs: "rs = top_n_of top_n (assign_ranks 0 (sort_reverse predicted_yield results))"
    by (auto simp: recommend_def Let_def split: if_splits sum.splits)
  have "set rs \<subseteq> set (assign_ranks 0 (sort_reverse predicted_yield results))"
    unfolding rs top_n_of_def py_slice_to_def
    by (auto split: option.splits dest: in_set_takeD)
  with assms(2) have "predicted_yield r
      \<in> predicted_yield ` set (assign_ranks 0 (sort_reverse predicted_yield results))"
    by blast
  then have "predicted_yield r \<in> predicted_yield ` set results"
    by (simp only: assign_ranks_yields sort_reverse_set)
  with make_results_clamped [OF res] show ?thesis by auto
qed

text \<open>
  C2. \<open>ModelLoader.predict\<close> and \<open>ModelLoader.recommend\<close> clamp (the two lemmas above),
  but \<open>predict_yield\<close> and \<open>recommend_crops\<close> of src/models/inference.py report the raw
  prediction: a model answering -5 is reported as -5 on both paths.
\<close>

theorem inference_reports_negative_yield:
  "predict_yield (\<lambda>frame. [-5]) ''Wheat'' ''India'' 1000 5000 20 = Inr (-5)
   \<and> recommend_crops (\<lambda>frame. [-5]) ''India'' 1000 5000 20 (Some [''Wheat'']) None
       = Inr [\<lparr>rank = 1, crop = ''Wheat'', predicted_yield = -5, yield_unit = ''hg/ha''\<rparr>]
   \<and> predict \<lparr>loader_model = (\<lambda>frame. [-5]), loader_metadata = None, is_loaded = True\<rparr>
        ''Wheat'' ''India'' 1000 5000 20 = Inr 0"
  by (simp add: predict_yield_def recommend_crops_def crops_or_default_def input_rows_def
        sort_reverse_def top_n_of_def predict_def)

section \<open>Crop validation\<close>

lemma validate_crop_exact:
  "crop_name \<in> set (crops_or_default supported) \<Longrightarrow>
     validate_crop crop_name supported = (True, [])"
  by (simp add: validate_crop_def)

lemma validate_crop_unsupported:
  assumes "\<forall>s \<in> set (crops_or_default supported). py_lower s \<noteq> py_lower crop_name"
  shows "\<exists>pre post. validate_crop crop_name supported
           = (False, pre @ ''not supported'' @ post)"
proof -
  from assms have "crop_name \<notin> set (crops_or_default supported)"
    by blast
  moreover from assms
  have "find (\<lambda>s. py_lower s = py_lower crop_name) (crops_or_default supported) = None"
    by (simp add: find_None_iff)
  ultimately have "validate_crop crop_name supported
      = (False, (''Crop '' @ [CHR 0x27] @ crop_name @ [CHR 0x27] @ '' is '')
                @ ''not supported''
                @ (''. Supported crops: '' @ py_repr_list (crops_or_default supported)))"
    by (simp add: validate_crop_def)
  then show ?thesis by blast
qed

text \<open>
  C3. On an input that matches a supported crop only up to case, \<open>validate_crop\<close>
  returns \<open>True\<close> (not \<open>False\<close>) together with the suggestion.
\<close>

theorem validate_crop_case_insensitive_returns_true:
  "validate_crop ''wheat'' None = (True, ''Did you mean '' @ [CHR 0x27] @ ''Wheat'' @ [CHR 0x27] @ ''?'')
   \<and> validate_crop ''Wheat'' None = (True, [])
   \<and> validate_crop ''Unicorn'' None
       = (False, ''Crop '' @ [CHR 0x27] @ ''Unicorn'' @ [CHR 0x27]
                 @ '' is not supported. Supported crops: ''
                 @ py_repr_list SUPPORTED_CROPS)"
  by code_simp

section \<open>Feature engineering\<close>

lemma create_features_rows:
  assumes "create_features df = Inr out"
  shows "rows out = map (\<lambda>r.
     let r1 = (if ''avg_temp'' \<in> set (columns df)
               then r(''temp_category'' := cut_cell [10, 20, 30] [''cold'', ''temperate'', ''warm'', ''hot''] (r ''avg_temp'')) else r);
         r2 = (if ''rainfall_mm'' \<in> set (columns df)
               then r1(''rainfall_category'' := cut_cell [500, 1000, 2000] [''arid'', ''semi_arid'', ''moderate'', ''wet''] (r1 ''rainfall_mm'')) else r1);
         r3 = (if ''pesticides_tonnes'' \<in> set (columns df)
               then r2(''log_pesticides'' := log1p_cell (r2 ''pesticides_tonnes'')) else r2)
     in (if ''avg_temp'' \<in> set (columns df) \<and> ''rainfall_mm'' \<in> set (columns df)
         then r3(''temp_rain_interaction'' := interaction_cell (r3 ''avg_temp'') (r3 ''rainfall_mm'')) else r3)) (rows df)"
  using assms
  by (auto simp: create_features_def assign_column_def Let_def split: if_splits)

text \<open>
  C5 (as stated). A row with \<open>avg_temp = 10\<close>, \<open>rainfall_mm = 500\<close> and
  \<open>pesticides_tonnes = 0\<close> gets \<open>temp_category = cold\<close> and
  \<open>rainfall_category = arid\<close>, the lower buckets, not \<open>temperate\<close> and \<open>semi_arid\<close>
  (and \<open>log_pesticides = 0\<close>).
\<close>

theorem create_features_boundary_in_lower_bucket:
  "map_sum id table_contents
     (create_features (make_table [''avg_temp'', ''rainfall_mm'', ''pesticides_tonnes'']
                         [[Num 10, Num 500, Num 0]]))
   = Inr ([''avg_temp'', ''rainfall_mm'', ''pesticides_tonnes'', ''temp_category'',
           ''rainfall_category'', ''log_pesticides'', ''temp_rain_interaction''],
          [[Num 10, Num 500, Num 0, Str ''cold'', Str ''arid'', Num 0, Num 5]])"
  by (simp add: create_features_def make_table_def table_contents_def table_cells_def
        assign_column_def numeric_column_def row_of_def)

text \<open>
  C5 (amended). The bins are closed on the right: a temperature \<open>t\<close> is \<open>cold\<close> for
  \<open>t \<le> 10\<close>, \<open>temperate\<close> for \<open>10 < t \<le> 20\<close>, \<open>warm\<close> for \<open>20 < t \<le> 30\<close> and \<open>hot\<close>
  above; a rainfall \<open>w\<close> is \<open>arid\<close> for \<open>w \<le> 500\<close>, \<open>semi_arid\<close> up to 1000,
  \<open>moderate\<close> up to 2000 and \<open>wet\<close> above; \<open>log_pesticides\<close> is \<open>ln (1 + p)\<close>, which is 0
  at \<open>p = 0\<close>. So a boundary value falls into the lower bucket.
\<close>

theorem create_features_right_closed_bins:
  assumes "create_features df = Inr out" and "i < length (rows df)"
  shows "length (rows out) = length (rows df)
     \<and> (''avg_temp'' \<in> set (columns df) \<longrightarrow> (rows df ! i) ''avg_temp'' = Num t \<longrightarrow>
          (rows out ! i) ''temp_category''
            = Str (if t \<le> 10 then ''cold'' else if t \<le> 20 then ''temperate''
                   else if t \<le> 30 then ''warm'' else ''hot''))
     \<and> (''rainfall_mm'' \<in> set (columns df) \<longrightarrow> (rows df ! i) ''rainfall_mm'' = Num w \<longrightarrow>
          (rows out ! i) ''rainfall_category''
            = Str (if w \<le> 500 then ''arid'' else if w \<le> 1000 then ''semi_arid''
                   else if w \<le> 2000 then ''moderate'' else ''wet''))
     \<and> (''pesticides_tonnes'' \<in> set (columns df) \<longrightarrow>
          (rows df ! i) ''pesticides_tonnes'' = Num p \<longrightarrow> -1 < p \<longrightarrow>
          (rows out ! i) ''log_pesticides'' = Num (ln (1 + p)))"
  using assms(2) by (simp add: create_features_rows [OF assms(1)] Let_def)

theorem create_features_right_closed_bins_witness:
  "\<exists>out. create_features
            (make_table [''avg_temp'', ''rainfall_mm'', ''pesticides_tonnes'']
               [[Num 10, Num 500, Num 0], [Num 9.999, Num 500.5, Num 0],
                [Num 10.0001, Num 1000, Num 0]]) = Inr out
     \<and> (1 :: nat) < 3
     \<and> (rows out ! 0) ''temp_category'' = Str ''cold''
     \<and> (rows out ! 1) ''temp_category'' = Str ''cold''
     \<and> (rows out ! 2) ''temp_category'' = Str ''temperate''
     \<and> (rows out ! 0) ''rainfall_category'' = Str ''arid''
     \<and> (rows out ! 1) ''rainfall_category'' = Str ''semi_arid''
     \<and> (rows out ! 0) ''log_pesticides'' = Num 0"
proof -
  let ?df = "make_table [''avg_temp'', ''rainfall_mm'', ''pesticides_tonnes'']
               [[Num 10, Num 500, Num 0], [Num 9.999, Num 500.5, Num 0],
                [Num 10.0001, Num 1000, Num 0]]"
  obtain out where o: "create_features ?df = Inr out"
    by (simp add: create_features_def make_table_def numeric_column_def row_of_def
          assign_column_def)
  have cols: "''avg_temp'' \<in> set (columns ?df)" "''rainfall_mm'' \<in> set (columns ?df)"
    "''pesticides_tonnes'' \<in> set (columns ?df)"
    by (simp_all add: make_table_def)
  have i0: "0 < length (rows ?df)" and i1: "1 < length (rows ?df)" and i2: "2 < length (rows ?df)"
    by (simp_all add: make_table_def)
  have v0: "(rows ?df ! 0) ''avg_temp'' = Num 10" "(rows ?df ! 0) ''rainfall_mm'' = Num 500"
    "(rows ?df ! 0) ''pesticides_tonnes'' = Num 0"
    by (simp_all add: make_table_def row_of_def)
  have v1: "(rows ?df ! 1) ''avg_temp'' = Num 9.999" "(rows ?df ! 1) ''rainfall_mm'' = Num 500.5"
    by (simp_all add: make_table_def row_of_def)
  have v2: "(rows ?df ! 2) ''avg_temp'' = Num 10.0001"
    by (simp_all add: make_table_def row_of_def)
  from create_features_right_closed_bins [OF o i0, of 10 500 0] cols v0
  have a: "(rows out ! 0) ''temp_category'' = Str ''cold''"
    "(rows out ! 0) ''rainfall_category'' = Str ''arid''"
    "(rows out ! 0) ''log_pesticides'' = Num 0"
    by simp_all
  from create_features_right_closed_bins [OF o i1, of "9.999" "500.5" 0] cols v1
  have b: "(rows out ! 1) ''temp_category'' = Str ''cold''"
    "(rows out ! 1) ''rainfall_category'' = Str ''semi_arid''"
    by simp_all
  from create_features_right_closed_bins [OF o i2, of "10.0001" 0 0] cols v2
  have c: "(rows out ! 2) ''temp_category'' = Str ''temperate''"
    by simp
  from o a b c show ?thesis by simp
qed

section \<open>Normalisation of country names\<close>

lemma dropWhile_id: "xs = [] \<or> \<not> P (hd xs) \<Longrightarrow> dropWhile P xs = xs"
  by (cases xs) auto

lemma rstrip_Cons:
  "rev (dropWhile P (rev (x # xs)))
     = (if rev (dropWhile P (rev xs)) = [] \<and> P x then [] else x # rev (dropWhile P (rev xs)))"
  by (auto simp: dropWhile_append)

lemma rstrip_hd:
  "xs = [] \<or> \<not> P (hd xs) \<Longrightarrow>
     rev (dropWhile P (rev xs)) = [] \<or> \<not> P (hd (rev (dropWhile P (rev xs))))"
  by (cases xs) (auto simp: rstrip_Cons simp del: rev.simps)

lemma py_strip_idem: "py_strip (py_strip s) = py_strip s"
proof -
  let ?u = "dropWhile py_isspace s"
  let ?t = "rev (dropWhile py_isspace (rev ?u))"
  have "?u = [] \<or> \<not> py_isspace (hd ?u)"
    by (metis hd_dropWhile)
  then have "?t = [] \<or> \<not> py_isspace (hd ?t)"
    by (rule rstrip_hd)
  then have "dropWhile py_isspace ?t = ?t"
    by (rule dropWhile_id)
  then show ?thesis
    by (simp add: py_strip_def)
qed

lemma country_values_fixed:
  "\<forall>(k, v) \<in> set COUNTRY_MAPPING. py_strip v = v \<and> map_of COUNTRY_MAPPING v = None"
  by code_simp

lemma normal_country_idem: "normal_country (normal_country s) = normal_country s"
proof (cases "map_of COUNTRY_MAPPING (py_strip s)")
  case None
  then show ?thesis
    by (simp add: normal_country_def rename_by_def py_strip_idem)
next
  case (Some v)
  then have "(py_strip s, v) \<in> set COUNTRY_MAPPING"
    by (rule map_of_SomeD)
  with country_values_fixed have "py_strip v = v" "map_of COUNTRY_MAPPING v = None"
    by auto
  with Some show ?thesis
    by (simp add: normal_country_def rename_by_def)
qed

lemma normal_cell_simps:
  "normal_cell (Str s) = Str (normal_country s)" "normal_cell NA = NA" "normal_cell (Num x) = NA"
  by (simp_all add: normal_cell_def normal_country_def)

lemma normal_cell_idem: "normal_cell (normal_cell v) = normal_cell v"
  by (cases v) (simp_all add: normal_cell_simps normal_country_idem)

lemma map_column_twice: "map_column c f (map_column c g df) = map_column c (\<lambda>v. f (g v)) df"
  by (simp add: map_column_def comp_def)

lemma map_column_columns: "columns (map_column c f df) = columns df"
  by (simp add: map_column_def)

lemma map_column_cells: "map (\<lambda>r. r c) (rows (map_column c f df)) = map (\<lambda>r. f (r c)) (rows df)"
  by (simp add: map_column_def comp_def)

lemma standardize_country_names_eq:
  "standardize_country_names df c =
     (if c \<in> set (columns df) then
        (if str_accessor_ok (map (\<lambda>r. r c) (rows df)) then Inr (map_column c normal_cell df)
         else Inl AttributeError)
      else Inr df)"
proof -
  have "normal_cell = (\<lambda>v. replace_cell COUNTRY_MAPPING (strip_cell v))"
    by (simp add: fun_eq_iff normal_cell_def)
  then show ?thesis
    by (simp add: standardize_country_names_def str_strip_column_def map_column_twice)
qed

lemma str_accessor_ok_normal:
  assumes "str_accessor_ok (map g xs)"
  shows "str_accessor_ok (map (\<lambda>r. normal_cell (g r)) xs)"
proof -
  have 1: "is_str v \<Longrightarrow> is_str (normal_cell v)" for v
    by (cases v) (simp_all add: normal_cell_simps)
  have 2: "v = NA \<Longrightarrow> normal_cell v = NA" for v
    by (simp add: normal_cell_simps)
  from assms show ?thesis
    unfolding str_accessor_ok_def using 1 2 by auto
qed

text \<open>
  C9. Applying \<open>standardize_country_names\<close> to its own result changes nothing (and an
  error of the first application is the error of the composition). A string cell of
  the country column is stripped and then replaced by its canonical form when the
  stripped name is a key of \<open>COUNTRY_MAPPING\<close>, and is only stripped otherwise; the other
  columns are untouched.
\<close>

theorem standardize_country_names_idempotent:
  "(case standardize_country_names df c of
      Inl e \<Rightarrow> Inl e
    | Inr d \<Rightarrow> standardize_country_names d c) = standardize_country_names df c
   \<and> (\<forall>out. standardize_country_names df c = Inr out \<longrightarrow> c \<in> set (columns df) \<longrightarrow>
         columns out = columns df \<and> length (rows out) = length (rows df)
         \<and> (\<forall>i < length (rows df).
              (\<forall>k. k \<noteq> c \<longrightarrow> (rows out ! i) k = (rows df ! i) k)
              \<and> (\<forall>s. (rows df ! i) c = Str s \<longrightarrow>
                    (rows out ! i) c
                      = Str (case map_of COUNTRY_MAPPING (py_strip s) of
                               Some canonical \<Rightarrow> canonical
                             | None \<Rightarrow> py_strip s))))"
proof (intro conjI allI impI)
  show "(case standardize_country_names df c of
      Inl e \<Rightarrow> Inl e
    | Inr d \<Rightarrow> standardize_country_names d c) = standardize_country_names df c"
  proof (cases "c \<in> set (columns df) \<and> str_accessor_ok (map (\<lambda>r. r c) (rows df))")
    case True
    then have ok: "str_accessor_ok (map (\<lambda>r. r c) (rows (map_column c normal_cell df)))"
      by (simp only: map_column_cells str_accessor_ok_normal)
    have "map_column c normal_cell (map_column c normal_cell df) = map_column c normal_cell df"
      by (simp add: map_column_twice normal_cell_idem)
    with True ok show ?thesis
      by (simp add: standardize_country_names_eq map_column_columns)
  next
    case False
    then show ?thesis
      by (auto simp: standardize_country_names_eq)
  qed
next
  fix out
  assume o: "standardize_country_names df c = Inr out" and c: "c \<in> set (columns df)"
  then have out: "out = map_column c normal_cell df"
    by (simp add: standardize_country_names_eq split: if_splits)
  show "columns out = columns df"
    by (simp add: out map_column_columns)
  show "length (rows out) = length (rows df)"
    by (simp add: out map_column_def)
  fix i
  assume i: "i < length (rows df)"
  show "(rows out ! i) k = (rows df ! i) k" if "k \<noteq> c" for k
    using i that by (simp add: out map_column_def)
  show "(rows out ! i) c
          = Str (case map_of COUNTRY_MAPPING (py_strip s) of
                   Some canonical \<Rightarrow> canonical
                 | None \<Rightarrow> py_strip s)"
    if "(rows df ! i) c = Str s" for s
    using i that
    by (simp add: out map_column_def normal_cell_simps normal_country_def rename_by_def)
qed

theorem standardize_country_names_idempotent_witness:
  "\<exists>out. standardize_country_names
            (make_table [''country'', ''year'']
               [[Str '' USA '', Num 2000], [Str ''India'', Num 2001]]) ''country'' = Inr out
     \<and> ''country'' \<in> set [''country'', ''year'']
     \<and> (0::nat) < 2
     \<and> (rows out ! 0) ''country'' = Str ''United States''
     \<and> (rows out ! 1) ''country'' = Str ''India''
     \<and> (rows out ! 0) ''year'' = Num 2000
     \<and> standardize_country_names out ''country'' = Inr out"
proof -
  let ?df = "make_table [''country'', ''year'']
               [[Str '' USA '', Num 2000], [Str ''India'', Num 2001]]"
  have ok: "str_accessor_ok (map (\<lambda>r. r ''country'') (rows ?df))"
    by (simp add: str_accessor_ok_def make_table_def row_of_def)
  have cols: "columns ?df = [''country'', ''year'']" and len: "length (rows ?df) = 2"
    by (simp_all add: make_table_def)
  have r0: "(rows ?df ! 0) ''country'' = Str '' USA ''" "(rows ?df ! 0) ''year'' = Num 2000"
    and r1: "(rows ?df ! 1) ''country'' = Str ''India''"
    by (simp_all add: make_table_def row_of_def)
  obtain out where o: "standardize_country_names ?df ''country'' = Inr out"
    using ok by (simp add: standardize_country_names_eq cols)
  have s1: "py_strip '' USA '' = ''USA''" and s2: "py_strip ''India'' = ''India''"
    by code_simp+
  have m1: "map_of COUNTRY_MAPPING ''USA'' = Some ''United States''"
    and m2: "map_of COUNTRY_MAPPING ''India'' = None"
    by code_simp+
  note t = standardize_country_names_idempotent [where df = ?df and c = "''country''"]
  from t have idem: "(case standardize_country_names ?df ''country'' of
      Inl e \<Rightarrow> Inl e
    | Inr d \<Rightarrow> standardize_country_names d ''country'') = standardize_country_names ?df ''country''"
    by (rule conjunct1)
  from t o have props: "\<forall>i < length (rows ?df).
              (\<forall>k. k \<noteq> ''country'' \<longrightarrow> (rows out ! i) k = (rows ?df ! i) k)
              \<and> (\<forall>s. (rows ?df ! i) ''country'' = Str s \<longrightarrow>
                    (rows out ! i) ''country''
                      = Str (case map_of COUNTRY_MAPPING (py_strip s) of
                               Some canonical \<Rightarrow> canonical
                             | None \<Rightarrow> py_strip s))"
    by (simp add: cols)
  from props len r0 s1 m1 have a: "(rows out ! 0) ''country'' = Str ''United States''"
    by simp
  from props len r1 s2 m2 have b: "(rows out ! 1) ''country'' = Str ''India''"
    by simp
  from props len r0 have c: "(rows out ! 0) ''year'' = Num 2000"
    by simp
  from idem o have d: "standardize_country_names out ''country'' = Inr out"
    by simp
  from o a b c d show ?thesis by simp
qed

section \<open>Cleaning\<close>

lemma drop_dups_keys:
  "distinct (map k (drop_dups k seen xs)) \<and> set (map k (drop_dups k seen xs)) \<inter> set seen = {}"
proof (induction xs arbitrary: seen)
  case Nil
  show ?case by simp
next
  case (Cons x xs)
  show ?case
  proof (cases "k x \<in> set seen")
    case True
    with Cons.IH [of seen] show ?thesis by simp
  next
    case False
    from Cons.IH [of "k x # seen"]
    have d: "distinct (map k (drop_dups k (k x # seen) xs))"
      and i: "set (map k (drop_dups k (k x # seen) xs)) \<inter> set (k x # seen) = {}"
      by simp_all
    from i have "k x \<notin> set (map k (drop_dups k (k x # seen) xs))"
      and "set (map k (drop_dups k (k x # seen) xs)) \<inter> set seen = {}"
      by auto
    with d False show ?thesis by simp
  qed
qed

lemma drop_dups_distinct: "distinct (map k (drop_dups k [] xs))"
  using drop_dups_keys [of k "[]" xs] by simp

lemma drop_dups_subset: "set (drop_dups k seen xs) \<subseteq> set xs"
  by (induction xs arbitrary: seen) auto

lemma drop_dups_length: "length (drop_dups k seen xs) \<le> length xs"
  by (induction xs arbitrary: seen) (auto simp: le_SucI)

lemma drop_dups_first:
  "v \<notin> set seen \<Longrightarrow>
     find (\<lambda>y. k y = v) (drop_dups k seen xs) = find (\<lambda>y. k y = v) xs"
  by (induction xs arbitrary: seen) auto

lemma find_filter: "find Q (filter P xs) = find (\<lambda>x. P x \<and> Q x) xs"
  by (induction xs) auto

lemma astype_int_columns: "astype_int p c df = Inr d \<Longrightarrow> columns d = columns df"
  by (auto simp: astype_int_def map_column_def split: if_splits)

lemma astype_int_length: "astype_int p c df = Inr d \<Longrightarrow> length (rows d) = length (rows df)"
  by (auto simp: astype_int_def map_column_def split: if_splits)

lemma drop_duplicates_props:
  assumes "drop_duplicates cols df = Inr d"
  shows "columns d = columns df" "distinct (map (row_key cols) (rows d))"
    "length (rows d) \<le> length (rows df)" "set (rows d) \<subseteq> set (rows df)"
    "rows d = drop_dups (row_key cols) [] (rows df)"
  using assms drop_dups_distinct [of "row_key cols" "rows df"]
    drop_dups_length [of "row_key cols" "[]" "rows df"]
    drop_dups_subset [of "row_key cols" "[]" "rows df"]
  by (auto simp: drop_duplicates_def split: option.splits)

lemma drop_duplicates_ok:
  "set cols \<subseteq> set (columns df) \<Longrightarrow>
     drop_duplicates cols df = Inr (df\<lparr>rows := drop_dups (row_key cols) [] (rows df)\<rparr>)"
proof -
  assume "set cols \<subseteq> set (columns df)"
  then have "find (\<lambda>c. c \<notin> set (columns df)) cols = None"
    by (auto simp: find_None_iff)
  then show ?thesis
    by (simp add: drop_duplicates_def)
qed

lemma clean_context_unknown_eq:
  assumes "context_type \<notin> {''pesticides'', ''rainfall'', ''temperature''}"
  shows "clean_context_data p q df context_type =
     (case standardize_country_names df ''country'' of
        Inl e \<Rightarrow> Inl e
      | Inr df2 \<Rightarrow>
     (case astype_int p ''year'' df2 of
        Inl e \<Rightarrow> Inl e
      | Inr df3 \<Rightarrow> drop_duplicates [''country'', ''year''] df3))"
  using assms by (simp add: clean_context_data_def)

text \<open>
  C6 (amended). With a type tag other than the three known ones the context cleaner
  raises no configuration error: it skips the selection of columns and goes on with the
  frame as it is. Without a \<open>year\<close> column the conversion of the year raises
  KeyError; with a text \<open>country\<close> column and a convertible \<open>year\<close> column it returns a
  frame with the input's columns and distinct (country, year) keys.
\<close>

theorem clean_context_unknown_tag:
  assumes "context_type \<notin> {''pesticides'', ''rainfall'', ''temperature''}"
  shows "(''year'' \<notin> set (columns df)
          \<and> (''country'' \<in> set (columns df) \<longrightarrow>
                str_accessor_ok (map (\<lambda>r. r ''country'') (rows df))) \<longrightarrow>
            clean_context_data int_of_str num_of_str df context_type = Inl (KeyError ''year''))
       \<and> (''country'' \<in> set (columns df) \<and> ''year'' \<in> set (columns df)
          \<and> (\<forall>r \<in> set (rows df). is_str (r ''country'')
                                    \<and> int_cell int_of_str (r ''year'') \<noteq> None) \<longrightarrow>
            (\<exists>out. clean_context_data int_of_str num_of_str df context_type = Inr out
               \<and> columns out = columns df
               \<and> length (rows out) \<le> length (rows df)
               \<and> distinct (map (\<lambda>r. (r ''country'', r ''year'')) (rows out))))"
proof (intro conjI impI)
  assume a: "''year'' \<notin> set (columns df)
          \<and> (''country'' \<in> set (columns df) \<longrightarrow>
                str_accessor_ok (map (\<lambda>r. r ''country'') (rows df)))"
  then have "\<exists>d. standardize_country_names df ''country'' = Inr d \<and> columns d = columns df"
    by (cases "''country'' \<in> set (columns df)")
       (simp_all add: standardize_country_names_eq map_column_columns)
  then obtain d where d: "standardize_country_names df ''country'' = Inr d"
    "columns d = columns df"
    by blast
  with a have "astype_int int_of_str ''year'' d = Inl (KeyError ''year'')"
    by (simp add: astype_int_def)
  with d show "clean_context_data int_of_str num_of_str df context_type = Inl (KeyError ''year'')"
    by (simp add: clean_context_unknown_eq [OF assms])
next
  assume a: "''country'' \<in> set (columns df) \<and> ''year'' \<in> set (columns df)
          \<and> (\<forall>r \<in> set (rows df). is_str (r ''country'')
                                    \<and> int_cell int_of_str (r ''year'') \<noteq> None)"
  then have ok: "str_accessor_ok (map (\<lambda>r. r ''country'') (rows df))"
    by (cases "rows df") (auto simp: str_accessor_ok_def)
  let ?d = "map_column ''country'' normal_cell df"
  from a ok have d: "standardize_country_names df ''country'' = Inr ?d"
    by (simp add: standardize_country_names_eq)
  from a have "\<forall>r \<in> set (rows ?d). int_cell int_of_str (r ''year'') \<noteq> None"
    by (auto simp: map_column_def)
  with a obtain d3 where d3: "astype_int int_of_str ''year'' ?d = Inr d3"
    by (auto simp: astype_int_def map_column_columns)
  from astype_int_columns [OF d3] astype_int_length [OF d3]
  have c3: "columns d3 = columns df" and l3: "length (rows d3) = length (rows df)"
    by (simp_all add: map_column_columns map_column_def)
  with a have "set [''country'', ''year''] \<subseteq> set (columns d3)"
    by simp
  from drop_duplicates_ok [OF this] obtain out where
    out: "drop_duplicates [''country'', ''year''] d3 = Inr out"
    by blast
  note p = drop_duplicates_props [OF out]
  from p(2) have "distinct (map (\<lambda>r. (r ''country'', r ''year'')) (rows out))"
    by (simp add: distinct_map row_key_def inj_on_def)
  with d d3 out p(1) p(3) c3 l3
  show "\<exists>out. clean_context_data int_of_str num_of_str df context_type = Inr out
               \<and> columns out = columns df
               \<and> length (rows out) \<le> length (rows df)
               \<and> distinct (map (\<lambda>r. (r ''country'', r ''year'')) (rows out))"
    by (simp add: clean_context_unknown_eq [OF assms])
qed

text \<open>
  C6 (as stated). Called with the tag \<open>humidity\<close> on a frame with columns country, year
  and humidity, the context cleaner returns a cleaned frame instead of failing.
\<close>

theorem clean_context_unknown_tag_returns_table:
  "map_sum id table_contents
     (clean_context_data (\<lambda>s. None) (\<lambda>s. None)
        (make_table [''country'', ''year'', ''humidity'']
           [[Str ''USA'', Num 2000, Num 55], [Str ''India'', Num 2001, Num 60],
            [Str ''USA'', Num 2000, Num 70]])
        ''humidity'')
   = Inr ([''country'', ''year'', ''humidity''],
          [[Str ''United States'', Num 2000, Num 55], [Str ''India'', Num 2001, Num 60]])"
  by code_simp


lemma standardize_column_names_shape:
  "columns (standardize_column_names df None) = map standard_name (columns df)"
  "length (rows (standardize_column_names df None)) = length (rows df)"
  by (simp_all add: standardize_column_names_def rename_columns_def standard_name_def)

lemma standardize_country_names_shape:
  assumes "standardize_country_names df c = Inr d"
  shows "columns d = columns df" "length (rows d) = length (rows df)"
  using assms
  by (auto simp: standardize_country_names_eq map_column_def split: if_splits)

lemma str_strip_column_shape:
  assumes "str_strip_column c df = Inr d"
  shows "columns d = columns df" "length (rows d) = length (rows df)"
  using assms
  by (auto simp: str_strip_column_def map_column_def split: if_splits)

lemma fold_to_numeric_shape:
  "columns (fold (\<lambda>col d. if col \<in> set (columns d) then map_column col f d else d) cs df)
     = columns df
   \<and> length (rows (fold (\<lambda>col d. if col \<in> set (columns d) then map_column col f d else d)
                      cs df)) = length (rows df)"
  by (induction cs arbitrary: df) (simp_all add: map_column_def)

lemma coerce_yield_data_shape:
  assumes "coerce_yield_data p q df = Inr pre"
  shows "columns pre = map standard_name (columns df)"
    and "length (rows pre) = length (rows df)"
proof -
  let ?df1 = "standardize_column_names df None"
  from assms obtain df2 df3 df4 where
    2: "standardize_country_names ?df1 ''country'' = Inr df2"
    and 3: "(if ''crop'' \<in> set (columns df2) then clean_text_column ''crop'' df2 else Inr df2)
              = Inr df3"
    and 4: "(if ''year'' \<in> set (columns df3) then astype_int p ''year'' df3 else Inr df3)
              = Inr df4"
    and 5: "pre = fold (\<lambda>col d. if col \<in> set (columns d)
                                 then map_column col (to_numeric_cell q) d else d)
                    [''yield'', ''rainfall_mm'', ''pesticides_tonnes'', ''avg_temp''] df4"
    by (auto simp: coerce_yield_data_def Let_def split: sum.splits)
  note s2 = standardize_country_names_shape [OF 2]
  from 3 have s3: "columns df3 = columns df2 \<and> length (rows df3) = length (rows df2)"
    by (auto simp: clean_text_column_def split: if_splits dest: str_strip_column_shape)
  from 4 have s4: "columns df4 = columns df3 \<and> length (rows df4) = length (rows df3)"
    by (auto split: if_splits dest: astype_int_columns astype_int_length)
  have s5: "columns pre = columns df4 \<and> length (rows pre) = length (rows df4)"
    unfolding 5 by (rule fold_to_numeric_shape)
  from s2 s3 s4 s5 show "columns pre = map standard_name (columns df)"
    by (simp add: standardize_column_names_shape)
  from s2 s3 s4 s5 show "length (rows pre) = length (rows df)"
    by (simp add: standardize_column_names_shape)
qed

text \<open>
  C8. When the input has, after standardisation of the column names, the columns
  yield, country, crop and year, every row of the result of \<open>clean_yield_data\<close> has a
  yield, no two rows share (country, crop, year), and the rows are rows of the coerced
  input, unchanged: for every key the row kept is the first coerced row with that key
  that has a yield. Rows without a yield are dropped, never filled in.
\<close>

theorem clean_yield_data_no_missing_no_duplicates:
  assumes "clean_yield_data int_of_str num_of_str df = Inr out"
    and "{''yield'', ''country'', ''crop'', ''year''} \<subseteq> standard_name ` set (columns df)"
  shows "(\<forall>r \<in> set (rows out). r ''yield'' \<noteq> NA)
       \<and> distinct (map (\<lambda>r. (r ''country'', r ''crop'', r ''year'')) (rows out))
       \<and> (\<exists>pre. coerce_yield_data int_of_str num_of_str df = Inr pre
             \<and> columns out = columns pre
             \<and> length (rows pre) = length (rows df)
             \<and> set (rows out) \<subseteq> set (rows pre)
             \<and> (\<forall>key. find (\<lambda>r. (r ''country'', r ''crop'', r ''year'') = key) (rows out)
                        = find (\<lambda>r. r ''yield'' \<noteq> NA
                                     \<and> (r ''country'', r ''crop'', r ''year'') = key)
                            (rows pre)))"
proof -
  from assms(1) obtain pre where pre: "coerce_yield_data int_of_str num_of_str df = Inr pre"
    by (auto simp: clean_yield_data_def split: sum.splits)
  note shape = coerce_yield_data_shape [OF pre]
  from assms(2) shape(1) have cols: "''yield'' \<in> set (columns pre)"
    "''country'' \<in> set (columns pre)" "''crop'' \<in> set (columns pre)"
    "''year'' \<in> set (columns pre)"
    by auto
  let ?kept = "filter (\<lambda>r. r ''yield'' \<noteq> NA) (rows pre)"
  let ?keys = "[''country'', ''crop'', ''year'']"
  from cols have kc: "filter (\<lambda>c. c \<in> set (columns (dropna ''yield'' pre))) ?keys = ?keys"
    by (simp add: dropna_def)
  from cols have "set ?keys \<subseteq> set (columns (dropna ''yield'' pre))"
    by (simp add: dropna_def)
  from drop_duplicates_ok [OF this] assms(1) pre cols kc
  have out: "out = (dropna ''yield'' pre)\<lparr>rows := drop_dups (row_key ?keys) [] ?kept\<rparr>"
    by (simp add: clean_yield_data_def Let_def dropna_def)
  then have rows: "rows out = drop_dups (row_key ?keys) [] ?kept"
    and c: "columns out = columns pre"
    by (simp_all add: dropna_def)
  have sub: "set (rows out) \<subseteq> set ?kept"
    unfolding rows by (rule drop_dups_subset)
  then have 1: "\<forall>r \<in> set (rows out). r ''yield'' \<noteq> NA"
    by auto
  have "distinct (map (row_key ?keys) (rows out))"
    unfolding rows by (rule drop_dups_distinct)
  then have 2: "distinct (map (\<lambda>r. (r ''country'', r ''crop'', r ''year'')) (rows out))"
    by (simp add: distinct_map row_key_def inj_on_def)
  have 3: "find (\<lambda>r. (r ''country'', r ''crop'', r ''year'') = key) (rows out)
         = find (\<lambda>r. r ''yield'' \<noteq> NA \<and> (r ''country'', r ''crop'', r ''year'') = key)
             (rows pre)" for key
  proof -
    obtain a b c where key: "key = (a, b, c)"
      by (cases key)
    have k: "(r ''country'', r ''crop'', r ''year'') = key \<longleftrightarrow> row_key ?keys r = [a, b, c]"
      for r :: row
      by (auto simp: key row_key_def)
    have "find (\<lambda>r. row_key ?keys r = [a, b, c]) (rows out)
            = find (\<lambda>r. row_key ?keys r = [a, b, c]) ?kept"
      unfolding rows by (rule drop_dups_first) simp
    also have "\<dots> = find (\<lambda>r. r ''yield'' \<noteq> NA \<and> row_key ?keys r = [a, b, c]) (rows pre)"
      by (rule find_filter)
    finally show ?thesis
      unfolding k .
  qed
  from sub have 4: "set (rows out) \<subseteq> set (rows pre)"
    by auto
  from pre c shape(2) 1 2 3 4 show ?thesis
    by blast
qed


lemma map_sum_InrD: "map_sum f g x = Inr y \<Longrightarrow> \<exists>v. x = Inr v \<and> g v = y"
  by (cases x) auto

theorem clean_context_unknown_tag_witness:
  "''humidity'' \<notin> {''pesticides'', ''rainfall'', ''temperature''}
   \<and> clean_context_data (\<lambda>s. None) (\<lambda>s. None)
        (make_table [''country'', ''humidity''] [[Str ''USA'', Num 55]]) ''humidity''
       = Inl (KeyError ''year'')
   \<and> (\<exists>out. clean_context_data (\<lambda>s. None) (\<lambda>s. None)
                (make_table [''country'', ''year'', ''humidity'']
                   [[Str ''USA'', Num 2000, Num 55], [Str ''India'', Num 2001, Num 60],
                    [Str ''USA'', Num 2000, Num 70]]) ''humidity'' = Inr out
          \<and> columns out = [''country'', ''year'', ''humidity'']
          \<and> length (rows out) \<le> 3
          \<and> distinct (map (\<lambda>r. (r ''country'', r ''year'')) (rows out)))"
proof -
  let ?p = "(\<lambda>s. None) :: string \<Rightarrow> int option"
  let ?q = "(\<lambda>s. None) :: string \<Rightarrow> real option"
  let ?a = "make_table [''country'', ''humidity''] [[Str ''USA'', Num 55]]"
  let ?b = "make_table [''country'', ''year'', ''humidity'']
                   [[Str ''USA'', Num 2000, Num 55], [Str ''India'', Num 2001, Num 60],
                    [Str ''USA'', Num 2000, Num 70]]"
  have tag: "''humidity'' \<notin> {''pesticides'', ''rainfall'', ''temperature''}"
    by simp
  have a: "''year'' \<notin> set (columns ?a)
          \<and> (''country'' \<in> set (columns ?a) \<longrightarrow>
                str_accessor_ok (map (\<lambda>r. r ''country'') (rows ?a)))"
    by (simp add: make_table_def row_of_def str_accessor_ok_def)
  have b: "''country'' \<in> set (columns ?b) \<and> ''year'' \<in> set (columns ?b)
          \<and> (\<forall>r \<in> set (rows ?b). is_str (r ''country'') \<and> int_cell ?p (r ''year'') \<noteq> None)"
    by (simp add: make_table_def row_of_def)
  have cb: "columns ?b = [''country'', ''year'', ''humidity'']" and lb: "length (rows ?b) = 3"
    by (simp_all add: make_table_def)
  note t = clean_context_unknown_tag [OF tag, of _ ?p ?q]
  from t [of ?a] a
  have 1: "clean_context_data ?p ?q ?a ''humidity'' = Inl (KeyError ''year'')"
    by blast
  from t [of ?b] b
  have "\<exists>out. clean_context_data ?p ?q ?b ''humidity'' = Inr out
               \<and> columns out = columns ?b
               \<and> length (rows out) \<le> length (rows ?b)
               \<and> distinct (map (\<lambda>r. (r ''country'', r ''year'')) (rows out))"
    by blast
  then have 2: "\<exists>out. clean_context_data ?p ?q ?b ''humidity'' = Inr out
          \<and> columns out = [''country'', ''year'', ''humidity'']
          \<and> length (rows out) \<le> 3
          \<and> distinct (map (\<lambda>r. (r ''country'', r ''year'')) (rows out))"
    by (simp only: cb lb)
  from tag 1 2 show ?thesis
    by (intro conjI)
qed

lemma clean_yield_data_example:
  "map_sum id table_contents
     (clean_yield_data (\<lambda>s. None) (\<lambda>s. None)
        (make_table [''Area'', '' Item'', ''Year'', ''hg/ha_yield'']
           [[Str ''USA '', Str ''Maize'', Num 2000, Num 100],
            [Str ''USA'', Str '' Maize'', Num 2000, Num 200],
            [Str ''India'', Str ''Wheat'', Num 2001, NA],
            [Str ''India'', Str ''Wheat'', Num 2001, Num 50]]))
   = Inr ([''country'', ''crop'', ''year'', ''yield''],
          [[Str ''United States'', Str ''Maize'', Num 2000, Num 100],
           [Str ''India'', Str ''Wheat'', Num 2001, Num 50]])"
  by code_simp

theorem clean_yield_data_no_missing_no_duplicates_witness:
  "{''yield'', ''country'', ''crop'', ''year''}
     \<subseteq> standard_name ` set [''Area'', '' Item'', ''Year'', ''hg/ha_yield'']
   \<and> (\<exists>out. clean_yield_data (\<lambda>s. None) (\<lambda>s. None)
                (make_table [''Area'', '' Item'', ''Year'', ''hg/ha_yield'']
                   [[Str ''USA '', Str ''Maize'', Num 2000, Num 100],
                    [Str ''USA'', Str '' Maize'', Num 2000, Num 200],
                    [Str ''India'', Str ''Wheat'', Num 2001, NA],
                    [Str ''India'', Str ''Wheat'', Num 2001, Num 50]]) = Inr out
          \<and> table_cells out
               = [[Str ''United States'', Str ''Maize'', Num 2000, Num 100],
                  [Str ''India'', Str ''Wheat'', Num 2001, Num 50]]
          \<and> (\<forall>r \<in> set (rows out). r ''yield'' \<noteq> NA)
          \<and> distinct (map (\<lambda>r. (r ''country'', r ''crop'', r ''year'')) (rows out)))"
proof -
  let ?p = "(\<lambda>s. None) :: string \<Rightarrow> int option"
  let ?q = "(\<lambda>s. None) :: string \<Rightarrow> real option"
  let ?df = "make_table [''Area'', '' Item'', ''Year'', ''hg/ha_yield'']
                   [[Str ''USA '', Str ''Maize'', Num 2000, Num 100],
                    [Str ''USA'', Str '' Maize'', Num 2000, Num 200],
                    [Str ''India'', Str ''Wheat'', Num 2001, NA],
                    [Str ''India'', Str ''Wheat'', Num 2001, Num 50]]"
  have names: "{''yield'', ''country'', ''crop'', ''year''}
     \<subseteq> standard_name ` set [''Area'', '' Item'', ''Year'', ''hg/ha_yield'']"
    by code_simp
  then have h: "{''yield'', ''country'', ''crop'', ''year''}
     \<subseteq> standard_name ` set (columns ?df)"
    by (simp only: make_table_def table.simps)
  from map_sum_InrD [OF clean_yield_data_example] obtain out where
    o: "clean_yield_data ?p ?q ?df = Inr out"
    and c: "table_contents out = ([''country'', ''crop'', ''year'', ''yield''],
          [[Str ''United States'', Str ''Maize'', Num 2000, Num 100],
           [Str ''India'', Str ''Wheat'', Num 2001, Num 50]])"
    by blast
  from c have cells: "table_cells out
               = [[Str ''United States'', Str ''Maize'', Num 2000, Num 100],
                  [Str ''India'', Str ''Wheat'', Num 2001, Num 50]]"
    by (simp add: table_contents_def)
  from clean_yield_data_no_missing_no_duplicates [OF o h]
  have "(\<forall>r \<in> set (rows out). r ''yield'' \<noteq> NA)
       \<and> distinct (map (\<lambda>r. (r ''country'', r ''crop'', r ''year'')) (rows out))"
    by blast
  with names o cells show ?thesis
    by blast
qed

section \<open>Fusion\<close>

















end
